theory Spec2Isabelle
  imports Main "HOL-Library.AList"
begin

section \<open>Values of the page-object command wrapper\<close>

text \<open>
  The wrapper works on JavaScript values. An object literal or a property table is an
  association list in property order: \<open>map_of\<close> reads a property, \<open>AList.update\<close> assigns one
  (in place when the property exists, appended otherwise), \<open>map fst\<close> is \<open>Object.keys\<close>.
  A table holds the own properties. The declaration maps \<open>elements\<close> and \<open>section\<close> are plain
  objects, so the \<open>in\<close> operator and a property read also reach the names they inherit from
  \<open>Object.prototype\<close> (\<open>Object_prototype\<close> below); for the targets of registration inherited
  names are outside the model, and so are keys that look like array indices (which
  \<open>Object.keys\<close> moves to the front).
\<close>

text \<open>
  Modelled from the spec: the Element class (\<open>require('../element')\<close>) is not part of the
  sources. An Element has the fields of spec section 3: \<open>selector\<close> (a string or a recursive
  chain), \<open>locateStrategy\<close> (nullable strategy name), \<open>pseudoSelector\<close>, \<open>parent\<close> (the owning
  Section, used for recursive lookup only) and \<open>container\<close>. A Section that stands in a chain or
  in a \<open>parent\<close> field is represented by its own locate descriptor (its selector, its strategy
  and its own parent); an element declared directly on a page has no parent.
\<close>

datatype element =
  Element (selector: sel) (locateStrategy: "string option") (pseudoSelector: "string option")
    (parent: "element option") (container: "element option")
and sel = SelString string | SelChain "element list" | SelUndefined

text \<open>\<open>SelUndefined\<close> is the selector of an element whose \<open>selector\<close> was assigned
  \<open>undefined\<close>.\<close>

definition set_selector :: "sel \<Rightarrow> element \<Rightarrow> element" where
  "set_selector s e = Element s (locateStrategy e) (pseudoSelector e) (parent e) (container e)"

definition set_locateStrategy :: "string option \<Rightarrow> element \<Rightarrow> element" where
  "set_locateStrategy l e = Element (selector e) l (pseudoSelector e) (parent e) (container e)"

definition set_pseudoSelector :: "string option \<Rightarrow> element \<Rightarrow> element" where
  "set_pseudoSelector p e = Element (selector e) (locateStrategy e) p (parent e) (container e)"

definition set_parent :: "element option \<Rightarrow> element \<Rightarrow> element" where
  "set_parent p e = Element (selector e) (locateStrategy e) (pseudoSelector e) p (container e)"

definition set_container :: "element option \<Rightarrow> element \<Rightarrow> element" where
  "set_container c e = Element (selector e) (locateStrategy e) (pseudoSelector e) (parent e) c"

datatype jsval =
    JUndefined
  | JNull
  | JBool bool
  | JNum int
  | JStr string
  | JArr "jsval list"
  | JObj "(string \<times> jsval) list"
  | JElement element
  | JFun nat
  | JPromise nat "(string \<times> jsval) list"

text \<open>\<open>JFun n\<close> is the function with identity \<open>n\<close>; \<open>JPromise n props\<close> is the promise with
  identity \<open>n\<close> and own properties \<open>props\<close>. Plain objects and promises are the values with
  a property table: \<open>props_of\<close> reads it, \<open>with_props\<close> is the same object with the table
  after an assignment.\<close>

definition props_of :: "jsval \<Rightarrow> (string \<times> jsval) list option" where
  "props_of v = (case v of JObj fs \<Rightarrow> Some fs | JPromise n fs \<Rightarrow> Some fs | _ \<Rightarrow> None)"

definition with_props :: "jsval \<Rightarrow> (string \<times> jsval) list \<Rightarrow> jsval" where
  "with_props v fs = (case v of JObj _ \<Rightarrow> JObj fs | JPromise n _ \<Rightarrow> JPromise n fs | _ \<Rightarrow> v)"

datatype error =
    Error string
  | TypeError string bool bool
  | RuntimeTypeError
  | InvalidSelector
  | Thrown jsval

text \<open>\<open>Error msg\<close> is \<open>new Error(msg)\<close>; \<open>TypeError msg displayed showTrace\<close> is the TypeError of
  \<open>addCommand\<close> with its two flags; \<open>RuntimeTypeError\<close> is a TypeError raised by the engine
  (a property read on \<open>undefined\<close>, a call of something that is not a function);
  \<open>Thrown v\<close> is whatever a wrapped command function throws.\<close>

fun truthy :: "jsval \<Rightarrow> bool" where
  "truthy JUndefined = False"
| "truthy JNull = False"
| "truthy (JBool b) = b"
| "truthy (JNum n) = (n \<noteq> 0)"
| "truthy (JStr s) = (s \<noteq> [])"
| "truthy _ = True"

fun isString :: "jsval \<Rightarrow> bool" where
  "isString (JStr s) = True"
| "isString _ = False"

fun isArray :: "jsval \<Rightarrow> bool" where
  "isArray (JArr xs) = True"
| "isArray _ = False"

text \<open>Modelled from the spec: \<open>Utils.isObject\<close> is not part of the sources; it is taken as
  \<open>typeof v === 'object'\<close> on a value that is not \<open>null\<close>, so a function is not an object.\<close>

fun isObject :: "jsval \<Rightarrow> bool" where
  "isObject (JArr xs) = True"
| "isObject (JObj fs) = True"
| "isObject (JElement e) = True"
| "isObject (JPromise n ps) = True"
| "isObject _ = False"

definition startsWith_at :: "string \<Rightarrow> bool" where
  "startsWith_at s = (case s of [] \<Rightarrow> False | c # _ \<Rightarrow> c = CHR ''@'')"

text \<open>\<open>args[i]\<close>: reading past the end of a JavaScript array gives \<open>undefined\<close>.\<close>

definition arg :: "jsval list \<Rightarrow> nat \<Rightarrow> jsval" where
  "arg args i = (if i < length args then args ! i else JUndefined)"

text \<open>\<open>s.split(':')\<close>.\<close>

fun split_colon :: "string \<Rightarrow> string list" where
  "split_colon [] = [[]]"
| "split_colon (c # cs) =
     (if c = CHR '':'' then [] # split_colon cs
      else (case split_colon cs of [] \<Rightarrow> [[c]] | w # ws \<Rightarrow> (c # w) # ws))"

text \<open>\<open>xs.join(', ')\<close>.\<close>

fun join_comma :: "string list \<Rightarrow> string" where
  "join_comma [] = []"
| "join_comma [x] = x"
| "join_comma (x # y # ys) = x @ '', '' @ join_comma (y # ys)"

section \<open>Pages, sections and commands\<close>

record client =
  isES6AsyncTestcase :: bool

text \<open>
  The parent of a command is a Page or a Section. \<open>constructor_name\<close> is
  \<open>parent.constructor.name\<close>, \<open>instanceof_Section\<close> is \<open>parent instanceof Section\<close>,
  \<open>as_element\<close> is the parent seen as a scope of a recursive chain, \<open>elements\<close> and \<open>sections\<close>
  are the declaration maps \<open>parent.elements\<close> and \<open>parent.section\<close>, \<open>own_props\<close> are the own
  enumerable properties \<open>Object.assign\<close> copies and \<open>proto_props\<close> the own properties of
  \<open>Object.getPrototypeOf(parent)\<close> in the order of \<open>Object.getOwnPropertyNames\<close>.
\<close>

record pageobject =
  constructor_name :: string
  instanceof_Section :: bool
  name :: string
  as_element :: element
  elements :: "(string \<times> element) list"
  sections :: "(string \<times> element) list"
  parent_client :: "client option"
  own_props :: "(string \<times> jsval) list"
  proto_props :: "(string \<times> jsval) list"

text \<open>The tables of the API loaders (\<open>require('../api')\<close>, the scoped element API) and
  \<open>Utils.LocateStrategy.isValid\<close> are not part of the sources; they are parameters.\<close>

record api =
  isElementCommand :: "string \<Rightarrow> bool"
  isScopedElementCommand :: "string \<Rightarrow> bool"
  getElementsCommandsStrict :: "string list"
  isValid :: "jsval \<Rightarrow> bool"

record command =
  owner :: pageobject
  commandName :: string
  isChaiAssertion :: bool
  isES6Async :: bool
  isUserDefined :: bool
  onlyLocateSectionsRecursively :: bool

text \<open>\<open>owner\<close> is the field \<open>this.parent\<close> of the source. A new Command has no
  \<open>onlyLocateSectionsRecursively\<close> property, which reads as false.\<close>

definition isUserDefinedElementCommand :: "api \<Rightarrow> string \<Rightarrow> bool" where
  "isUserDefinedElementCommand env cname =
     (cname \<notin> set (getElementsCommandsStrict env))"

definition new_Command :: "api \<Rightarrow> pageobject \<Rightarrow> string \<Rightarrow> bool \<Rightarrow> bool \<Rightarrow> command" where
  "new_Command env p cname chai es6 =
     \<lparr> owner = p, commandName = cname, isChaiAssertion = chai, isES6Async = es6,
       isUserDefined = isUserDefinedElementCommand env cname,
       onlyLocateSectionsRecursively = False \<rparr>"

section \<open>Selector classification\<close>

definition has_string_selector :: "jsval \<Rightarrow> bool" where
  "has_string_selector item =
     (case item of
        JElement e \<Rightarrow> (case selector e of SelString s \<Rightarrow> True | _ \<Rightarrow> False)
      | _ \<Rightarrow> (case props_of item of
                 Some fs \<Rightarrow> (case map_of fs ''selector'' of Some v \<Rightarrow> isString v | None \<Rightarrow> False)
               | None \<Rightarrow> False))"

definition isPossibleElementSelector :: "api \<Rightarrow> jsval \<Rightarrow> string \<Rightarrow> bool" where
  "isPossibleElementSelector env item cname =
     (if \<not> truthy item then False
      else if isArray item then False
      else if isObject item then has_string_selector item
      else (case item of
              JStr s \<Rightarrow> startsWith_at s \<or> isElementCommand env cname
                         \<or> isScopedElementCommand env cname
            | _ \<Rightarrow> False))"

definition getSelectorFromArgs :: "api \<Rightarrow> command \<Rightarrow> jsval list \<Rightarrow> jsval option" where
  "getSelectorFromArgs env cmd args =
     (let selectorArg = arg args 0 in
      if isPossibleElementSelector env selectorArg (commandName cmd) then
        (if isValid env selectorArg \<and> isString (arg args 1)
         then Some (JObj [(''selector'', arg args 1), (''locateStrategy'', arg args 0)])
         else Some selectorArg)
      else None)"

section \<open>Lookup and validation\<close>

datatype lookup_type = TYPE_ELEMENT | TYPE_SECTION

text \<open>A strategy filter is \<open>null\<close> or a string; \<open>if (strategy)\<close> holds for a non-empty string.\<close>

definition given :: "string option \<Rightarrow> bool" where
  "given strategy = (case strategy of None \<Rightarrow> False | Some s \<Rightarrow> s \<noteq> [])"

definition show_strategy :: "string option \<Rightarrow> string" where
  "show_strategy l = (case l of None \<Rightarrow> ''null'' | Some s \<Rightarrow> s)"

definition target_of :: "command \<Rightarrow> lookup_type \<Rightarrow> (string \<times> element) list" where
  "target_of cmd type =
     (case type of TYPE_ELEMENT \<Rightarrow> elements (owner cmd) | TYPE_SECTION \<Rightarrow> sections (owner cmd))"

text \<open>The own property names of \<open>Object.prototype\<close>, which every plain object inherits.\<close>

definition Object_prototype :: "string list" where
  "Object_prototype =
     [''constructor'', ''__defineGetter__'', ''__defineSetter__'', ''hasOwnProperty'',
      ''__lookupGetter__'', ''__lookupSetter__'', ''isPrototypeOf'', ''propertyIsEnumerable'',
      ''toString'', ''valueOf'', ''__proto__'', ''toLocaleString'']"

text \<open>\<open>item in target\<close>: an own key of the map or a name the map inherits.\<close>

definition in_target :: "string \<Rightarrow> (string \<times> element) list \<Rightarrow> bool" where
  "in_target item target = (item \<in> set (map fst target) \<or> item \<in> set Object_prototype)"

text \<open>\<open>target[item].locateStrategy\<close>: the strategy of a declared entry; an inherited value (a
  function of \<open>Object.prototype\<close>) has none.\<close>

definition strategy_of :: "(string \<times> element) list \<Rightarrow> string \<Rightarrow> string option" where
  "strategy_of target item =
     (case map_of target item of None \<Rightarrow> None | Some e \<Rightarrow> locateStrategy e)"

definition lookup_message :: "command \<Rightarrow> string \<Rightarrow> string option \<Rightarrow> lookup_type \<Rightarrow> string" where
  "lookup_message cmd elementOrSection strategy type =
     (let target = target_of cmd type;
          typeAvailable = (case type of TYPE_ELEMENT \<Rightarrow> ''elements'' | TYPE_SECTION \<Rightarrow> ''sections'');
          prefix = (case type of TYPE_ELEMENT \<Rightarrow> ''Element'' | TYPE_SECTION \<Rightarrow> ''Section'');
          showStrategy =
            (if given strategy
             then ''[locateStrategy='' @ [CHR 0x27] @ show_strategy strategy @ [CHR 0x27] @ '']''
             else []);
          showAvailable =
            (if given strategy
             then map (\<lambda>item. item @ ''[locateStrategy='' @ [CHR 0x27]
                               @ show_strategy (strategy_of target item) @ [CHR 0x27] @ '']'')
                      (map fst target)
             else map fst target)
      in prefix @ '' '' @ [CHR 0x22] @ elementOrSection @ showStrategy @ [CHR 0x22]
         @ '' was not found in '' @ [CHR 0x22] @ name (owner cmd) @ [CHR 0x22]
         @ ''. Available '' @ typeAvailable @ '': '' @ join_comma showAvailable)"

definition validate :: "command \<Rightarrow> string \<Rightarrow> string option \<Rightarrow> lookup_type \<Rightarrow> error + unit" where
  "validate cmd elementOrSection strategy type =
     (let target = target_of cmd type;
          isValid0 = in_target elementOrSection target;
          isValid1 =
            (if isValid0 \<and> given strategy
             then given (strategy_of target elementOrSection)
                  \<and> strategy_of target elementOrSection = strategy
             else isValid0)
      in if \<not> isValid1 then Inl (Error (lookup_message cmd elementOrSection strategy type))
         else Inr ())"

text \<open>\<open>getElement\<close> and \<open>getSection\<close> return \<open>target[name]\<close>: the declared entry, or for a name
  that is no own key (after \<open>validate\<close>, an inherited one) the value inherited under that
  name.\<close>

datatype looked_up = Declared element | Inherited string

definition read_entry :: "(string \<times> element) list \<Rightarrow> string \<Rightarrow> looked_up" where
  "read_entry target item =
     (case map_of target item of Some e \<Rightarrow> Declared e | None \<Rightarrow> Inherited item)"

definition getElement :: "command \<Rightarrow> string \<Rightarrow> string option \<Rightarrow> error + looked_up" where
  "getElement cmd elementName strategy =
     (case validate cmd elementName strategy TYPE_ELEMENT of
        Inl e \<Rightarrow> Inl e
      | Inr _ \<Rightarrow> Inr (read_entry (elements (owner cmd)) elementName))"

definition getSection :: "command \<Rightarrow> string \<Rightarrow> string option \<Rightarrow> error + looked_up" where
  "getSection cmd sectionName strategy =
     (case validate cmd sectionName strategy TYPE_SECTION of
        Inl e \<Rightarrow> Inl e
      | Inr _ \<Rightarrow> Inr (read_entry (sections (owner cmd)) sectionName))"

section \<open>Element helpers\<close>

text \<open>Modelled from the spec: \<open>Element.createFromSelector\<close> is not part of the sources. A
  Selector is a string locator (an \<open>@name\<close> reference among them), a descriptor
  \<open>{selector, locateStrategy}\<close> or an Element already built (spec section 3); anything else is
  no selector.\<close>

definition createFromSelector :: "jsval \<Rightarrow> error + element" where
  "createFromSelector v =
     (case v of
        JStr s \<Rightarrow> if s = [] then Inl InvalidSelector
                  else Inr (Element (SelString s) None None None None)
      | JElement e \<Rightarrow> Inr e
      | _ \<Rightarrow>
          (case props_of v of
             Some fs \<Rightarrow>
               (case map_of fs ''selector'' of
                  Some (JStr s) \<Rightarrow>
                    Inr (Element (SelString s)
                           (case map_of fs ''locateStrategy'' of Some (JStr l) \<Rightarrow> Some l | _ \<Rightarrow> None)
                           None None None)
                | _ \<Rightarrow> Inl InvalidSelector)
           | None \<Rightarrow> Inl InvalidSelector))"

text \<open>Modelled from the spec: \<open>createFromSelector({locateStrategy: 'recursion', selector: chain})\<close>,
  the recursive selector of spec section 3: the ordered scopes, target last.\<close>

definition recursive_element :: "element list \<Rightarrow> element" where
  "recursive_element chain = Element (SelChain chain) (Some ''recursion'') None None None"

text \<open>Modelled from the spec: \<open>hasElementSelector\<close> (not part of the sources) holds when the
  element is \<open>@\<close>-referenced.\<close>

definition hasElementSelector :: "element \<Rightarrow> bool" where
  "hasElementSelector e = (case selector e of SelString s \<Rightarrow> startsWith_at s | _ \<Rightarrow> False)"

text \<open>Modelled from the spec: \<open>Element.copyDefaults(to, from)\<close> (not part of the sources) copies
  the properties of the looked-up element that the provisional one does not specify.\<close>

definition copyDefaults :: "element \<Rightarrow> element \<Rightarrow> element" where
  "copyDefaults to from =
     Element (selector to)
       (case locateStrategy to of None \<Rightarrow> locateStrategy from | Some l \<Rightarrow> Some l)
       (case pseudoSelector to of None \<Rightarrow> pseudoSelector from | Some p \<Rightarrow> Some p)
       (case parent to of None \<Rightarrow> parent from | Some p \<Rightarrow> Some p)
       (case container to of None \<Rightarrow> container from | Some c \<Rightarrow> Some c)"

text \<open>Modelled from the spec: \<open>getRecursiveLookupElement\<close> (not part of the sources). An element
  that resides inside a Section is replaced by its recursive chain, the enclosing sections
  from the outermost to the innermost, then the element; an element with no enclosing section
  has none (\<open>null\<close>).\<close>

fun ancestors :: "element \<Rightarrow> element list" where
  "ancestors (Element s l ps None c) = []"
| "ancestors (Element s l ps (Some p) c) = ancestors p @ [p]"

definition getRecursiveLookupElement :: "element \<Rightarrow> element option" where
  "getRecursiveLookupElement e =
     (case parent e of None \<Rightarrow> None | Some p \<Rightarrow> Some (recursive_element (ancestors e @ [e])))"

section \<open>Reference resolution\<close>

text \<open>The strategy filter \<open>Utils.isObject(selector) && selector.locateStrategy || null\<close>: locate
  strategies are strings, and a falsy one (absent, \<open>null\<close>, empty) gives \<open>null\<close>.\<close>

definition strategy_filter :: "jsval \<Rightarrow> string option" where
  "strategy_filter sel =
     (case sel of
        JElement e \<Rightarrow> (if given (locateStrategy e) then locateStrategy e else None)
      | _ \<Rightarrow> (case props_of sel of
                 Some fs \<Rightarrow> (case map_of fs ''locateStrategy'' of
                               Some (JStr l) \<Rightarrow> if l = [] then None else Some l
                             | _ \<Rightarrow> None)
               | None \<Rightarrow> None))"

text \<open>\<open>nameSections[1] || null\<close>.\<close>

definition pseudo_of :: "string list \<Rightarrow> string option" where
  "pseudo_of nameSections =
     (case nameSections of
        n # p # _ \<Rightarrow> if p = [] then None else Some p
      | _ \<Rightarrow> None)"

text \<open>
  \<open>parseElementSelector\<close> writes to three places: \<open>args[0]\<close>, the \<open>pseudoSelector\<close> of the
  looked-up entry of the parent's map (\<open>elementOrSection\<close> is that very object) and its own
  \<open>onlyLocateSectionsRecursively\<close>. It returns the command (with its parent) and the argument
  list after these writes, or the error thrown. The only throwing steps come before every
  write. When the name was an inherited one, \<open>elementOrSection\<close> is a function of
  \<open>Object.prototype\<close>: the write of \<open>pseudoSelector\<close> lands on that function and not in the
  parent's maps, and the function has no \<open>selector\<close>, \<open>locateStrategy\<close>, \<open>parent\<close> or
  \<open>container\<close> to read.
\<close>

definition entry_of :: "looked_up \<Rightarrow> element" where
  "entry_of l =
     (case l of Declared d \<Rightarrow> d | Inherited n \<Rightarrow> Element SelUndefined None None None None)"

definition store_entry :: "command \<Rightarrow> bool \<Rightarrow> string \<Rightarrow> element \<Rightarrow> command" where
  "store_entry cmd isSectionSelector nm e =
     (if isSectionSelector
      then cmd\<lparr>owner := (owner cmd)\<lparr>sections := AList.update nm e (sections (owner cmd))\<rparr>\<rparr>
      else cmd\<lparr>owner := (owner cmd)\<lparr>elements := AList.update nm e (elements (owner cmd))\<rparr>\<rparr>)"

definition parseElementSelector ::
  "api \<Rightarrow> command \<Rightarrow> jsval list \<Rightarrow> error + (command \<times> jsval list)" where
  "parseElementSelector env cmd args =
     (case getSelectorFromArgs env cmd args of
        None \<Rightarrow> Inr (cmd, args)
      | Some sel \<Rightarrow>
         (case createFromSelector sel of
            Inl err \<Rightarrow> Inl err
          | Inr inputElement \<Rightarrow>
             if hasElementSelector inputElement then
               (let nameSections =
                      split_colon (case selector inputElement of SelString s \<Rightarrow> tl s | _ \<Rightarrow> []);
                    nm = (case nameSections of [] \<Rightarrow> [] | n # _ \<Rightarrow> n);
                    pseudo = pseudo_of nameSections;
                    isSectionSelector = (isChaiAssertion cmd \<and> commandName cmd = ''section'');
                    strategy = strategy_filter sel
                in case (if isSectionSelector then getSection cmd nm strategy
                         else getElement cmd nm strategy) of
                     Inl err \<Rightarrow> Inl err
                   | Inr looked \<Rightarrow>
                      (let elementOrSection = set_pseudoSelector pseudo (entry_of looked);
                           cmd1 = (case looked of
                                     Declared d \<Rightarrow> store_entry cmd isSectionSelector nm elementOrSection
                                   | Inherited n \<Rightarrow> cmd);
                           e1 = copyDefaults inputElement elementOrSection;
                           e2 = set_locateStrategy (locateStrategy elementOrSection) e1;
                           e3 = set_selector (selector elementOrSection) e2;
                           e4 = (case getRecursiveLookupElement e3 of Some r \<Rightarrow> r | None \<Rightarrow> e3)
                       in Inr (cmd1, args[0 := JElement e4])))
             else if instanceof_Section (owner cmd) then
               (let e1 = set_parent (Some (as_element (owner cmd))) inputElement;
                    e2 = (case getRecursiveLookupElement e1 of
                            Some r \<Rightarrow> r
                          | None \<Rightarrow> recursive_element [as_element (owner cmd), e1]);
                    cmd1 = (if isScopedElementCommand env (commandName cmd)
                            then cmd\<lparr>onlyLocateSectionsRecursively := True\<rparr> else cmd)
                in Inr (cmd1, args[0 := JElement e2]))
             else Inr (cmd, args)))"

section \<open>Dispatch\<close>

text \<open>A command function is called with \<open>this\<close> bound to the client context and returns a
  value or throws. Every function of this section also returns the list of the calls it
  made to the command function, so that "never invoked" is the empty list.\<close>

type_synonym commandfn = "client \<Rightarrow> jsval list \<Rightarrow> error + jsval"

type_synonym calls = "(client \<times> jsval list) list"

text \<open>\<open>Utils.isObject(args[0]) && Array.isArray(args[0].args)\<close>: the properties of \<open>args[0]\<close>
  and its inner array. (An array and an Element are objects with no \<open>args\<close> property.)\<close>

definition structured :: "jsval list \<Rightarrow> ((string \<times> jsval) list \<times> jsval list) option" where
  "structured args =
     (case props_of (arg args 0) of
        Some fs \<Rightarrow> (case map_of fs ''args'' of Some (JArr inner) \<Rightarrow> Some (fs, inner) | _ \<Rightarrow> None)
      | None \<Rightarrow> None)"

definition parseArgs_of :: "jsval list \<Rightarrow> jsval list" where
  "parseArgs_of args = (case structured args of Some (fs, inner) \<Rightarrow> inner | None \<Rightarrow> args)"

text \<open>\<open>parseArgs\<close> is \<open>args\<close> itself or the array inside \<open>args[0]\<close>, so what resolution writes
  to \<open>parseArgs\<close> is seen through \<open>args\<close>.\<close>

definition args_after :: "jsval list \<Rightarrow> jsval list \<Rightarrow> jsval list" where
  "args_after args resolved =
     (case structured args of
        Some (fs, inner) \<Rightarrow>
          args[0 := with_props (arg args 0) (AList.update ''args'' (JArr resolved) fs)]
      | None \<Rightarrow> resolved)"

definition executeCommand ::
  "api \<Rightarrow> command \<Rightarrow> commandfn \<Rightarrow> jsval list \<Rightarrow> client \<Rightarrow> command \<times> calls \<times> (error + jsval)" where
  "executeCommand env cmd commandFn args context =
     (case parseElementSelector env cmd (parseArgs_of args) of
        Inl err \<Rightarrow> (cmd, [], Inl err)
      | Inr (cmd1, resolved) \<Rightarrow>
          (cmd1, [(context, args_after args resolved)],
           commandFn context (args_after args resolved)))"

text \<open>The receiver \<open>this\<close> of a wrapper call: \<open>this.__needsRecursion\<close>, \<open>this.__element\<close> and
  \<open>this.client\<close>.\<close>

record receiver =
  needsRecursion :: bool
  this_element :: element
  this_client :: "client option"

definition within_command :: "command \<Rightarrow> receiver \<Rightarrow> jsval list \<Rightarrow> error + jsval list" where
  "within_command self this args =
     (if length args > 0 \<and> needsRecursion this then
        (case createFromSelector (arg args 0) of
           Inl err \<Rightarrow> Inl err
         | Inr inputElement \<Rightarrow>
             if isUserDefined self
             then Inr (args[0 := JElement (set_container (Some (this_element this)) inputElement)])
             else Inr (args[0 := JElement (recursive_element [this_element this, inputElement])]))
      else Inr args)"

definition client_of :: "command \<Rightarrow> receiver \<Rightarrow> client" where
  "client_of self this =
     (case this_client this of
        Some c \<Rightarrow> c
      | None \<Rightarrow> (case parent_client (owner self) of
                   Some c \<Rightarrow> c
                 | None \<Rightarrow> \<lparr> isES6AsyncTestcase = False \<rparr>))"

text \<open>\<open>Object.assign(result, self.parent)\<close>, then \<open>Object.defineProperty\<close> for every own
  property name of the parent's prototype but \<open>constructor\<close>, on the properties of the
  promise.\<close>

definition object_assign :: "(string \<times> jsval) list \<Rightarrow> (string \<times> jsval) list \<Rightarrow> (string \<times> jsval) list" where
  "object_assign props source = fold (\<lambda>(k, v) ps. AList.update k v ps) source props"

definition define_from :: "(string \<times> jsval) list \<Rightarrow> string \<Rightarrow> (string \<times> jsval) list \<Rightarrow> (string \<times> jsval) list" where
  "define_from proto propertyName ps =
     (if propertyName = ''constructor'' then ps
      else (case map_of proto propertyName of
              Some descriptor \<Rightarrow> AList.update propertyName descriptor ps
            | None \<Rightarrow> ps))"

definition augment :: "pageobject \<Rightarrow> (string \<times> jsval) list \<Rightarrow> (string \<times> jsval) list" where
  "augment p props =
     fold (define_from (proto_props p)) (map fst (proto_props p)) (object_assign props (own_props p))"

datatype returned = Returned jsval | ReturnedParent pageobject

text \<open>\<open>createWrapper env self commandFn\<close> is the closure \<open>createWrapper(commandFn)\<close> returns,
  applied to its receiver and arguments; it threads the Command \<open>self\<close>, which the calls
  share.\<close>

definition createWrapper ::
  "api \<Rightarrow> command \<Rightarrow> commandfn \<Rightarrow> receiver \<Rightarrow> jsval list \<Rightarrow> command \<times> calls \<times> (error + returned)" where
  "createWrapper env self commandFn this args =
     (case within_command self this args of
        Inl err \<Rightarrow> (self, [], Inl err)
      | Inr args1 \<Rightarrow>
         (case executeCommand env self commandFn args1 (client_of self this) of
            (self1, cs, Inl err) \<Rightarrow> (self1, cs, Inl err)
          | (self1, cs, Inr result) \<Rightarrow>
              if isChaiAssertion self then (self1, cs, Inr (Returned result))
              else (case result of
                      JPromise n props \<Rightarrow>
                        if constructor_name (owner self) = ''Page''
                           \<or> isES6AsyncTestcase (client_of self this)
                        then (self1, cs, Inr (Returned (JPromise n (augment (owner self1) props))))
                        else (self1, cs, Inr (ReturnedParent (owner self1)))
                    | _ \<Rightarrow> (self1, cs, Inr (ReturnedParent (owner self1))))))"

section \<open>Scoped element binder\<close>

text \<open>What the closure of \<open>wrapElementCommand\<close> ends with: the original function on the
  resolved arguments, or the parent section element \<open>targetApi(args[0])\<close> and the original
  arguments for its method of the same name.\<close>

datatype dispatch = OriginalFn "jsval list" | ParentSectionElement jsval "jsval list"

text \<open>\<open>args[0].selector.pop()\<close>: drops the last scope of a chain, and is a TypeError of the
  engine when \<open>args[0]\<close> has no array as selector.\<close>

definition pop_selector :: "jsval \<Rightarrow> error + jsval" where
  "pop_selector v =
     (case v of
        JElement e \<Rightarrow> (case selector e of
                         SelChain chain \<Rightarrow> Inr (JElement (set_selector (SelChain (butlast chain)) e))
                       | _ \<Rightarrow> Inl RuntimeTypeError)
      | _ \<Rightarrow> (case props_of v of
                 Some fs \<Rightarrow>
                   (case map_of fs ''selector'' of
                      Some (JArr xs) \<Rightarrow>
                        Inr (with_props v (AList.update ''selector'' (JArr (butlast xs)) fs))
                    | _ \<Rightarrow> Inl RuntimeTypeError)
               | None \<Rightarrow> Inl RuntimeTypeError))"

text \<open>\<open>wrapElementCommand env command\<close> is the closure \<open>wrapElementCommand\<close> returns, applied
  to its arguments; \<open>command\<close> is the one Command the closure was built with.\<close>

definition wrapElementCommand ::
  "api \<Rightarrow> command \<Rightarrow> jsval list \<Rightarrow> command \<times> (error + dispatch)" where
  "wrapElementCommand env command args =
     (let origArgs = args in
      case parseElementSelector env command args of
        Inl err \<Rightarrow> (command, Inl err)
      | Inr (command1, args1) \<Rightarrow>
          if onlyLocateSectionsRecursively command1 then
            (case pop_selector (arg args1 0) of
               Inl err \<Rightarrow> (command1, Inl err)
             | Inr scope \<Rightarrow> (command1, Inr (ParentSectionElement scope origArgs)))
          else (command1, Inr (OriginalFn args1)))"

section \<open>Registration\<close>

definition ALLOWED_NAMESPACES :: "string list" where
  "ALLOWED_NAMESPACES = [''alerts'', ''cookies'', ''document'', ''assert'', ''verify'', ''expect'']"

definition isAllowedNamespace :: "string \<Rightarrow> bool" where
  "isAllowedNamespace cname = (cname \<in> set ALLOWED_NAMESPACES)"

text \<open>A function the loader returns: its identity and \<open>Utils.isES6AsyncFn\<close> of it (whether it
  is declared as an ES6 async function). By the loader contract an entry of the loaded map is
  a function or a namespace of functions.\<close>

datatype jsfun = JSFunction (fid: nat) (isES6AsyncFn: bool)

datatype loaded = LFunction jsfun | LNamespace "(string \<times> jsfun) list"

text \<open>\<open>Wrapped self commandFn\<close> is the closure \<open>self.createWrapper(commandFn)\<close>. A property of a
  target is an object: a wrapper function or a namespace object, with properties of its
  own; so a property the target has is truthy.\<close>

datatype wrapped = Wrapped command jsfun

datatype tval = TObject "wrapped option" "(string \<times> tval) list"

definition duplicate_message :: "string \<Rightarrow> string" where
  "duplicate_message cname =
     ''Error while loading the page object commands: the command '' @ [CHR 0x22] @ cname
     @ [CHR 0x22] @ '' is already defined.''"

definition addCommand ::
  "api \<Rightarrow> (string \<times> tval) list \<Rightarrow> jsfun \<Rightarrow> string \<Rightarrow> pageobject \<Rightarrow> bool \<Rightarrow> bool \<Rightarrow> bool
     \<Rightarrow> error + wrapped" where
  "addCommand env target commandFn cname p chai es6 overwrite =
     (if map_of target cname \<noteq> None \<and> \<not> overwrite
      then Inl (TypeError (duplicate_message cname) False False)
      else Inr (Wrapped (new_Command env p cname chai es6) commandFn))"

text \<open>The statement \<open>target[commandName] = CommandLoader.addCommand({...})\<close>: the assignment does
  not happen when \<open>addCommand\<close> throws. \<open>applyCommandsToTarget\<close> leaves \<open>overwrite\<close> at its
  default, false.\<close>

definition assign_command ::
  "api \<Rightarrow> (string \<times> tval) list \<Rightarrow> jsfun \<Rightarrow> string \<Rightarrow> pageobject \<Rightarrow> bool \<Rightarrow> bool \<Rightarrow> bool
     \<Rightarrow> (string \<times> tval) list \<times> error option" where
  "assign_command env target commandFn cname p chai es6 overwrite =
     (case addCommand env target commandFn cname p chai es6 overwrite of
        Inl err \<Rightarrow> (target, Some err)
      | Inr w \<Rightarrow> (AList.update cname (TObject (Some w) []) target, None))"

text \<open>The inner \<open>forEach\<close> over a namespace, on the properties of \<open>target[commandName]\<close>.\<close>

fun apply_namespace ::
  "api \<Rightarrow> pageobject \<Rightarrow> bool \<Rightarrow> (string \<times> jsfun) list \<Rightarrow> string list \<Rightarrow> (string \<times> tval) list
     \<Rightarrow> (string \<times> tval) list \<times> error option" where
  "apply_namespace env p chai namespace [] ps = (ps, None)"
| "apply_namespace env p chai namespace (nsCommandName # rest) ps =
     (case map_of namespace nsCommandName of
        None \<Rightarrow> apply_namespace env p chai namespace rest ps
      | Some f \<Rightarrow>
         (case assign_command env ps f nsCommandName p chai False False of
            (ps1, Some err) \<Rightarrow> (ps1, Some err)
          | (ps1, None) \<Rightarrow> apply_namespace env p chai namespace rest ps1))"

text \<open>The outer \<open>forEach\<close> over \<open>Object.keys(commands)\<close>. It returns the target as the loop
  leaves it, and the error that stopped it, if any.\<close>

fun apply_keys ::
  "api \<Rightarrow> pageobject \<Rightarrow> (string \<times> loaded) list \<Rightarrow> string list \<Rightarrow> (string \<times> tval) list
     \<Rightarrow> (string \<times> tval) list \<times> error option" where
  "apply_keys env p commands [] target = (target, None)"
| "apply_keys env p commands (cname # rest) target =
     (if isAllowedNamespace cname then
        (case (case map_of target cname of Some t \<Rightarrow> t | None \<Rightarrow> TObject None []) of
           TObject c ps \<Rightarrow>
             (let namespace = (case map_of commands cname of
                                 Some (LNamespace fs) \<Rightarrow> fs
                               | _ \<Rightarrow> [])
              in case apply_namespace env p (cname = ''expect'') namespace (map fst namespace) ps of
                   (ps1, Some err) \<Rightarrow> (AList.update cname (TObject c ps1) target, Some err)
                 | (ps1, None) \<Rightarrow>
                     apply_keys env p commands rest (AList.update cname (TObject c ps1) target)))
      else
        (case map_of commands cname of
           Some (LFunction f) \<Rightarrow>
             (case assign_command env target f cname p False (isES6AsyncFn f) False of
                (target1, Some err) \<Rightarrow> (target1, Some err)
              | (target1, None) \<Rightarrow> apply_keys env p commands rest target1)
         | _ \<Rightarrow> apply_keys env p commands rest target))"

definition applyCommandsToTarget ::
  "api \<Rightarrow> pageobject \<Rightarrow> (string \<times> tval) list \<Rightarrow> (string \<times> loaded) list
     \<Rightarrow> (string \<times> tval) list \<times> error option" where
  "applyCommandsToTarget env p target commands = apply_keys env p commands (map fst commands) target"

section \<open>Comparing declaration maps\<close>


section \<open>A page object to run the definitions on\<close>

text \<open>The examples of spec section 8: a page that declares \<open>elements: {submit: {selector:
  '#go'}}\<close> and a section \<open>footer\<close> that declares \<open>elements: {link: {selector: 'a.link'}}\<close>.\<close>

definition example_api :: api where
  "example_api =
     \<lparr> isElementCommand = (\<lambda>c. c \<in> set [''click'', ''setValue'']),
       isScopedElementCommand = (\<lambda>c. c \<in> set [''find'', ''findAll'']),
       getElementsCommandsStrict = [''click'', ''setValue''],
       isValid = (\<lambda>v. v \<in> set [JStr ''css selector'', JStr ''xpath'']) \<rparr>"

definition footer_element :: element where
  "footer_element = Element (SelString ''#footer'') (Some ''css selector'') None None None"

definition example_page :: pageobject where
  "example_page =
     \<lparr> constructor_name = ''Page'', instanceof_Section = False, name = ''home'',
       as_element = Element (SelString []) None None None None,
       elements = [(''submit'', Element (SelString ''#go'') None None None None)],
       sections = [(''footer'', footer_element)],
       parent_client = None,
       own_props = [(''name'', JStr ''home'')],
       proto_props = [(''constructor'', JFun 0), (''api'', JFun 1)] \<rparr>"

definition example_section :: pageobject where
  "example_section =
     \<lparr> constructor_name = ''Section'', instanceof_Section = True, name = ''footer'',
       as_element = footer_element,
       elements = [(''link'', Element (SelString ''a.link'') None None (Some footer_element) None)],
       sections = [],
       parent_client = None,
       own_props = [(''name'', JStr ''footer'')],
       proto_props = [(''constructor'', JFun 2), (''api'', JFun 3)] \<rparr>"

section \<open>Lookup errors\<close>

lemma validate_isl:
  "isl (validate cmd x st ty) =
     (\<not> in_target x (target_of cmd ty)
      \<or> (given st \<and> strategy_of (target_of cmd ty) x \<noteq> st))"
  by (auto simp: validate_def Let_def given_def split: option.splits)

lemma validate_error:
  "validate cmd x st ty = Inl err \<Longrightarrow> err = Error (lookup_message cmd x st ty)"
  by (auto simp: validate_def Let_def split: if_splits)

lemma lookup_message_enumerates:
  "\<exists>header. lookup_message cmd x st ty =
     header @ join_comma
       (map (\<lambda>item. if given st
                     then item @ ''[locateStrategy='' @ [CHR 0x27]
                          @ show_strategy (strategy_of (target_of cmd ty) item) @ [CHR 0x27] @ '']''
                     else item)
            (map fst (target_of cmd ty)))"
proof (cases "given st")
  case True
  then show ?thesis
    unfolding lookup_message_def Let_def
    by (simp only: if_True append_assoc [symmetric]) blast
next
  case False
  then show ?thesis
    unfolding lookup_message_def Let_def
    by (simp only: if_False append_assoc [symmetric] map_ident) (simp add: comp_def)
qed

text \<open>
  What the code does: \<open>getElement\<close> and \<open>getSection\<close> throw exactly when the name is neither a
  key of the map nor a name the map inherits from \<open>Object.prototype\<close>, or a strategy filter
  is given (a non-empty string) and the entry's locate strategy is not that filter. What
  they throw is the lookup error whose message ends with the comma-separated list of every
  key of the map, each followed by \<open>[locateStrategy='...']\<close> of its entry exactly when a
  filter is given.
\<close>

lemma lookup_throws_iff:
  "isl (getElement cmd x st) =
     (\<not> in_target x (elements (owner cmd))
      \<or> (given st \<and> strategy_of (elements (owner cmd)) x \<noteq> st))
   \<and> isl (getSection cmd x st) =
     (\<not> in_target x (sections (owner cmd))
      \<or> (given st \<and> strategy_of (sections (owner cmd)) x \<noteq> st))
   \<and> (\<forall>err. getElement cmd x st = Inl err \<longrightarrow> err = Error (lookup_message cmd x st TYPE_ELEMENT))
   \<and> (\<forall>err. getSection cmd x st = Inl err \<longrightarrow> err = Error (lookup_message cmd x st TYPE_SECTION))
   \<and> (\<forall>ty. \<exists>header. lookup_message cmd x st ty =
         header @ join_comma
           (map (\<lambda>item. if given st
                         then item @ ''[locateStrategy='' @ [CHR 0x27]
                              @ show_strategy (strategy_of (target_of cmd ty) item)
                              @ [CHR 0x27] @ '']''
                         else item)
                (map fst (target_of cmd ty))))"
proof -
  have e: "isl (getElement cmd x st) = isl (validate cmd x st TYPE_ELEMENT)"
    by (simp add: getElement_def split: sum.splits)
  have s: "isl (getSection cmd x st) = isl (validate cmd x st TYPE_SECTION)"
    by (simp add: getSection_def split: sum.splits)
  have e2: "\<forall>err. getElement cmd x st = Inl err \<longrightarrow> err = Error (lookup_message cmd x st TYPE_ELEMENT)"
    by (auto simp: getElement_def split: sum.splits dest: validate_error)
  have s2: "\<forall>err. getSection cmd x st = Inl err \<longrightarrow> err = Error (lookup_message cmd x st TYPE_SECTION)"
    by (auto simp: getSection_def split: sum.splits dest: validate_error)
  show ?thesis
    using e s e2 s2 lookup_message_enumerates validate_isl [of cmd x st TYPE_ELEMENT]
      validate_isl [of cmd x st TYPE_SECTION]
    by (simp add: target_of_def)
qed

lemma lookup_errors_example:
  "isl (getElement (new_Command example_api example_page ''click'' False False) ''foo'' None)
   \<and> \<not> isl (getElement (new_Command example_api example_page ''click'' False False) ''submit'' None)
   \<and> getElement (new_Command example_api example_page ''click'' False False)
        ''submit'' (Some ''xpath'')
      = Inl (Error (''Element '' @ [CHR 0x22] @ ''submit[locateStrategy='' @ [CHR 0x27] @ ''xpath''
             @ [CHR 0x27] @ '']'' @ [CHR 0x22] @ '' was not found in '' @ [CHR 0x22] @ ''home''
             @ [CHR 0x22] @ ''. Available elements: submit[locateStrategy='' @ [CHR 0x27]
             @ ''null'' @ [CHR 0x27] @ '']''))
   \<and> getSection (new_Command example_api example_page ''section'' True False) ''header'' None
      = Inl (Error (''Section '' @ [CHR 0x22] @ ''header'' @ [CHR 0x22] @ '' was not found in ''
             @ [CHR 0x22] @ ''home'' @ [CHR 0x22] @ ''. Available sections: footer''))"
  by (simp add: getElement_def getSection_def validate_def lookup_message_def target_of_def
      strategy_of_def given_def show_strategy_def in_target_def Object_prototype_def
      read_entry_def new_Command_def isUserDefinedElementCommand_def example_api_def
      example_page_def footer_element_def Let_def)

text \<open>
  Claim C6 does not hold of the code. \<open>toString\<close> is absent from the \<open>elements\<close> map of the
  page and \<open>constructor\<close> from its \<open>section\<close> map, and no filter is given; yet \<open>validate\<close> finds
  both names with \<open>in\<close>, which also looks at what a plain object inherits, so \<open>getElement\<close>
  and \<open>getSection\<close> return the inherited function and no lookup error is thrown. For a name
  that is not inherited either (\<open>foo\<close>) the error is thrown.
\<close>

theorem lookup_inherited_name_not_rejected:
  "''toString'' \<notin> fst ` set (elements example_page)
   \<and> getElement (new_Command example_api example_page ''click'' False False) ''toString'' None
     = Inr (Inherited ''toString'')
   \<and> ''constructor'' \<notin> fst ` set (sections example_page)
   \<and> getSection (new_Command example_api example_page ''section'' True False) ''constructor'' None
     = Inr (Inherited ''constructor'')
   \<and> isl (getElement (new_Command example_api example_page ''click'' False False) ''foo'' None)"
  by (simp add: getElement_def getSection_def validate_def lookup_message_def target_of_def
      strategy_of_def given_def show_strategy_def in_target_def Object_prototype_def
      read_entry_def new_Command_def isUserDefinedElementCommand_def example_api_def
      example_page_def footer_element_def Let_def)

section \<open>Strategy and selector given as two arguments\<close>

text \<open>
  Claim C10. When the first argument of a selector-bearing call (one that
  \<open>isPossibleElementSelector\<close> accepts) is a string that \<open>LocateStrategy.isValid\<close> accepts and
  the second argument is a string too, \<open>getSelectorFromArgs\<close> returns the descriptor
  \<open>{selector: args[1], locateStrategy: args[0]}\<close> and not \<open>args[0]\<close>.
\<close>

theorem getSelectorFromArgs_strategy_pair:
  assumes "isPossibleElementSelector env (JStr s) (commandName cmd)"
    and "isValid env (JStr s)"
  shows "getSelectorFromArgs env cmd (JStr s # JStr t # rest)
         = Some (JObj [(''selector'', JStr t), (''locateStrategy'', JStr s)])"
  using assms by (simp add: getSelectorFromArgs_def arg_def)

theorem getSelectorFromArgs_strategy_pair_witness:
  "isPossibleElementSelector example_api (JStr ''xpath'')
     (commandName (new_Command example_api example_page ''click'' False False))
   \<and> isValid example_api (JStr ''xpath'')
   \<and> getSelectorFromArgs example_api (new_Command example_api example_page ''click'' False False)
        [JStr ''xpath'', JStr ''//a'']
       = Some (JObj [(''selector'', JStr ''//a''), (''locateStrategy'', JStr ''xpath'')])"
proof -
  have a: "isPossibleElementSelector example_api (JStr ''xpath'')
     (commandName (new_Command example_api example_page ''click'' False False))"
    by (simp add: isPossibleElementSelector_def example_api_def new_Command_def)
  have b: "isValid example_api (JStr ''xpath'')"
    by (simp add: example_api_def)
  show ?thesis
    using a b getSelectorFromArgs_strategy_pair [OF a b, of "''//a''" "[]"] by simp
qed

section \<open>Duplicate registration\<close>

text \<open>
  Claim C7. When the target already has the command name and \<open>overwrite\<close> is not requested,
  \<open>addCommand\<close> throws the TypeError whose \<open>displayed\<close> and \<open>showTrace\<close> are both false, and the
  registering assignment \<open>target[commandName] = addCommand(...)\<close> leaves the target as it was.
  With \<open>overwrite\<close> set, \<open>addCommand\<close> returns the wrapper of the new function without an error,
  and after the assignment the name holds that wrapper while every other property is
  unchanged.
\<close>

theorem addCommand_duplicate:
  "(map_of target cname \<noteq> None \<and> \<not> overwrite \<longrightarrow>
      addCommand env target f cname p chai es6 overwrite
        = Inl (TypeError (duplicate_message cname) False False)
      \<and> assign_command env target f cname p chai es6 overwrite
        = (target, Some (TypeError (duplicate_message cname) False False)))
   \<and> (overwrite \<longrightarrow>
      addCommand env target f cname p chai es6 overwrite
        = Inr (Wrapped (new_Command env p cname chai es6) f)
      \<and> snd (assign_command env target f cname p chai es6 overwrite) = None
      \<and> map_of (fst (assign_command env target f cname p chai es6 overwrite)) cname
        = Some (TObject (Some (Wrapped (new_Command env p cname chai es6) f)) [])
      \<and> (\<forall>k. k \<noteq> cname \<longrightarrow>
            map_of (fst (assign_command env target f cname p chai es6 overwrite)) k
            = map_of target k))"
  by (simp add: addCommand_def assign_command_def update_conv')

theorem addCommand_duplicate_witness:
  "map_of (fst (assign_command example_api [] (JSFunction 1 False) ''submitForm'' example_page
                  False False False)) ''submitForm'' \<noteq> None
   \<and> assign_command example_api
        (fst (assign_command example_api [] (JSFunction 1 False) ''submitForm'' example_page
                False False False))
        (JSFunction 2 False) ''submitForm'' example_page False False False
      = (fst (assign_command example_api [] (JSFunction 1 False) ''submitForm'' example_page
                False False False),
         Some (TypeError (duplicate_message ''submitForm'') False False))
   \<and> map_of (fst (assign_command example_api
        (fst (assign_command example_api [] (JSFunction 1 False) ''submitForm'' example_page
                False False False))
        (JSFunction 2 False) ''submitForm'' example_page False False True)) ''submitForm''
      = Some (TObject (Some (Wrapped (new_Command example_api example_page ''submitForm'' False False)
                               (JSFunction 2 False))) [])"
proof -
  let ?t = "fst (assign_command example_api [] (JSFunction 1 False) ''submitForm'' example_page
                  False False False)"
  have a: "map_of ?t ''submitForm'' \<noteq> None"
    by (simp add: assign_command_def addCommand_def)
  show ?thesis
    using a
      addCommand_duplicate [of ?t "''submitForm''" False example_api "JSFunction 2 False"
        example_page False False]
      addCommand_duplicate [of ?t "''submitForm''" True example_api "JSFunction 2 False"
        example_page False False]
    by simp
qed

section \<open>Top-level commands\<close>

lemma assign_command_None:
  "assign_command env target f k p chai es6 ow = (t1, None) \<Longrightarrow>
     t1 = AList.update k (TObject (Some (Wrapped (new_Command env p k chai es6) f)) []) target
     \<and> (map_of target k = None \<or> ow)"
  by (auto simp: assign_command_def addCommand_def split: if_splits)

lemma apply_keys_keeps:
  "apply_keys env p commands keys target = (target', None) \<Longrightarrow>
   \<not> isAllowedNamespace cname \<Longrightarrow> map_of target cname = Some v \<Longrightarrow>
   map_of target' cname = Some v"
proof (induction keys arbitrary: target)
  case Nil
  then show ?case by simp
next
  case (Cons k rest)
  show ?case
  proof (cases "isAllowedNamespace k")
    case True
    then have ne: "k \<noteq> cname" using Cons.prems(2) by auto
    obtain c ps where t: "(case map_of target k of Some t \<Rightarrow> t | None \<Rightarrow> TObject None []) = TObject c ps"
      by (cases "(case map_of target k of Some t \<Rightarrow> t | None \<Rightarrow> TObject None [])") auto
    let ?ns = "(case map_of commands k of Some (LNamespace fs) \<Rightarrow> fs | _ \<Rightarrow> [])"
    obtain ps1 r where a: "apply_namespace env p (k = ''expect'') ?ns (map fst ?ns) ps = (ps1, r)"
      by (cases "apply_namespace env p (k = ''expect'') ?ns (map fst ?ns) ps") auto
    from Cons.prems(1) True t a have r: "r = None"
      by (cases r) (simp_all add: Let_def)
    from Cons.prems(1) True t a r
    have "apply_keys env p commands rest (AList.update k (TObject c ps1) target) = (target', None)"
      by (simp add: Let_def)
    moreover have "map_of (AList.update k (TObject c ps1) target) cname = Some v"
      using ne Cons.prems(3) by (simp add: update_conv')
    ultimately show ?thesis using Cons.IH Cons.prems(2) by blast
  next
    case False
    show ?thesis
    proof (cases "map_of commands k")
      case None
      with Cons False show ?thesis by simp
    next
      case (Some l)
      show ?thesis
      proof (cases l)
        case (LNamespace fs)
        with Cons False Some show ?thesis by simp
      next
        case (LFunction f)
        obtain t1 r where a: "assign_command env target f k p False (isES6AsyncFn f) False = (t1, r)"
          by (cases "assign_command env target f k p False (isES6AsyncFn f) False") auto
        from Cons.prems(1) False Some LFunction a have r: "r = None"
          by (cases r) simp_all
        from assign_command_None a r
        have t1: "t1 = AList.update k (TObject (Some (Wrapped (new_Command env p k False (isES6AsyncFn f)) f)) []) target"
          and fresh: "map_of target k = None" by blast+
        from fresh Cons.prems(3) have ne: "k \<noteq> cname" by auto
        from Cons.prems(1) False Some LFunction a r
        have "apply_keys env p commands rest t1 = (target', None)" by simp
        moreover have "map_of t1 cname = Some v"
          using ne Cons.prems(3) t1 by (simp add: update_conv')
        ultimately show ?thesis using Cons.IH Cons.prems(2) by blast
      qed
    qed
  qed
qed

lemma apply_keys_registers:
  "apply_keys env p commands keys target = (target', None) \<Longrightarrow>
   \<not> isAllowedNamespace cname \<Longrightarrow> map_of commands cname = Some (LFunction f) \<Longrightarrow>
   cname \<in> set keys \<Longrightarrow>
   map_of target' cname
     = Some (TObject (Some (Wrapped (new_Command env p cname False (isES6AsyncFn f)) f)) [])"
proof (induction keys arbitrary: target)
  case Nil
  then show ?case by simp
next
  case (Cons k rest)
  show ?case
  proof (cases "k = cname")
    case True
    obtain t1 r where a: "assign_command env target f cname p False (isES6AsyncFn f) False = (t1, r)"
      by (cases "assign_command env target f cname p False (isES6AsyncFn f) False") auto
    from Cons.prems(1,2,3) True a have r: "r = None"
      by (cases r) simp_all
    from assign_command_None a r
    have t1: "t1 = AList.update cname (TObject (Some (Wrapped (new_Command env p cname False (isES6AsyncFn f)) f)) []) target"
      by blast
    from Cons.prems(1,2,3) True a r
    have "apply_keys env p commands rest t1 = (target', None)" by simp
    moreover have "map_of t1 cname = Some (TObject (Some (Wrapped (new_Command env p cname False (isES6AsyncFn f)) f)) [])"
      using t1 by (simp add: update_conv')
    ultimately show ?thesis using apply_keys_keeps Cons.prems(2) by blast
  next
    case ne: False
    then have mem: "cname \<in> set rest" using Cons.prems(4) by auto
    show ?thesis
    proof (cases "isAllowedNamespace k")
      case True
      obtain c ps where t: "(case map_of target k of Some t \<Rightarrow> t | None \<Rightarrow> TObject None []) = TObject c ps"
        by (cases "(case map_of target k of Some t \<Rightarrow> t | None \<Rightarrow> TObject None [])") auto
      let ?ns = "(case map_of commands k of Some (LNamespace fs) \<Rightarrow> fs | _ \<Rightarrow> [])"
      obtain ps1 r where a: "apply_namespace env p (k = ''expect'') ?ns (map fst ?ns) ps = (ps1, r)"
        by (cases "apply_namespace env p (k = ''expect'') ?ns (map fst ?ns) ps") auto
      from Cons.prems(1) True t a have r: "r = None"
        by (cases r) (simp_all add: Let_def)
      from Cons.prems(1) True t a r
      have "apply_keys env p commands rest (AList.update k (TObject c ps1) target) = (target', None)"
        by (simp add: Let_def)
      then show ?thesis using Cons.IH Cons.prems(2,3) mem by blast
    next
      case False
      show ?thesis
      proof (cases "map_of commands k")
        case None
        with Cons.prems(1) False have "apply_keys env p commands rest target = (target', None)" by simp
        then show ?thesis using Cons.IH Cons.prems(2,3) mem by blast
      next
        case (Some l)
        show ?thesis
        proof (cases l)
          case (LNamespace fs)
          with Cons.prems(1) False Some have "apply_keys env p commands rest target = (target', None)" by simp
          then show ?thesis using Cons.IH Cons.prems(2,3) mem by blast
        next
          case (LFunction g)
          obtain t1 r where a: "assign_command env target g k p False (isES6AsyncFn g) False = (t1, r)"
            by (cases "assign_command env target g k p False (isES6AsyncFn g) False") auto
          from Cons.prems(1) False Some LFunction a have r: "r = None"
            by (cases r) simp_all
          from Cons.prems(1) False Some LFunction a r
          have "apply_keys env p commands rest t1 = (target', None)" by simp
          then show ?thesis using Cons.IH Cons.prems(2,3) mem by blast
        qed
      qed
    qed
  qed
qed

text \<open>
  Claim C9, amended. When \<open>applyCommandsToTarget\<close> completes without a duplicate error, every
  top-level name of the loaded map that is not in the whitelist and whose value is a function
  is registered on the target as the Command-wrapped function, built for the parent, not a
  chai assertion, with \<open>isES6Async\<close> equal to \<open>Utils.isES6AsyncFn\<close> of that function. (A name
  whose value is an object is skipped: see the counterexample.)
\<close>

theorem applyCommandsToTarget_registers:
  assumes "applyCommandsToTarget env p target commands = (target', None)"
    and "map_of commands cname = Some (LFunction f)"
    and "\<not> isAllowedNamespace cname"
  shows "map_of target' cname
     = Some (TObject (Some (Wrapped (new_Command env p cname False (isES6AsyncFn f)) f)) [])"
proof -
  from assms(2) have "cname \<in> set (map fst commands)"
    by (metis map_of_eq_None_iff option.distinct(1) set_map)
  then show ?thesis
    using apply_keys_registers [OF assms(1) [unfolded applyCommandsToTarget_def] assms(3) assms(2)]
    by blast
qed

theorem applyCommandsToTarget_registers_witness:
  "applyCommandsToTarget example_api example_page []
     [(''helpers'', LNamespace [(''foo'', JSFunction 1 False)]),
      (''submitForm'', LFunction (JSFunction 2 True)),
      (''assert'', LNamespace [(''ok'', JSFunction 3 False)])]
   = ([(''submitForm'',
        TObject (Some (Wrapped (new_Command example_api example_page ''submitForm'' False True)
                         (JSFunction 2 True))) []),
       (''assert'',
        TObject None
          [(''ok'', TObject (Some (Wrapped (new_Command example_api example_page ''ok'' False False)
                                     (JSFunction 3 False))) [])])],
      None)
   \<and> \<not> isAllowedNamespace ''submitForm''
   \<and> map_of [(''submitForm'',
        TObject (Some (Wrapped (new_Command example_api example_page ''submitForm'' False True)
                         (JSFunction 2 True))) []),
       (''assert'',
        TObject None
          [(''ok'', TObject (Some (Wrapped (new_Command example_api example_page ''ok'' False False)
                                     (JSFunction 3 False))) [])])] ''submitForm''
     = Some (TObject (Some (Wrapped (new_Command example_api example_page ''submitForm'' False
                                       (isES6AsyncFn (JSFunction 2 True)))
                              (JSFunction 2 True))) [])"
proof -
  let ?cs = "[(''helpers'', LNamespace [(''foo'', JSFunction 1 False)]),
      (''submitForm'', LFunction (JSFunction 2 True)),
      (''assert'', LNamespace [(''ok'', JSFunction 3 False)])]"
  let ?t = "[(''submitForm'',
        TObject (Some (Wrapped (new_Command example_api example_page ''submitForm'' False True)
                         (JSFunction 2 True))) []),
       (''assert'',
        TObject None
          [(''ok'', TObject (Some (Wrapped (new_Command example_api example_page ''ok'' False False)
                                     (JSFunction 3 False))) [])])]"
  have a: "applyCommandsToTarget example_api example_page [] ?cs = (?t, None)"
    by (simp add: applyCommandsToTarget_def isAllowedNamespace_def ALLOWED_NAMESPACES_def
        assign_command_def addCommand_def)
  have b: "map_of ?cs ''submitForm'' = Some (LFunction (JSFunction 2 True))" by simp
  have c: "\<not> isAllowedNamespace ''submitForm''"
    by (simp add: isAllowedNamespace_def ALLOWED_NAMESPACES_def)
  show ?thesis
    using a c applyCommandsToTarget_registers [OF a b c] by simp
qed

text \<open>
  Claim C9 as stated fails: \<open>helpers\<close> is a top-level name outside the whitelist, its value is
  a namespace object, and \<open>applyCommandsToTarget\<close> returns without registering it.
\<close>

theorem applyCommandsToTarget_namespace_counterexample:
  "\<not> isAllowedNamespace ''helpers''
   \<and> applyCommandsToTarget example_api example_page []
       [(''helpers'', LNamespace [(''foo'', JSFunction 1 False)])] = ([], None)
   \<and> map_of (fst (applyCommandsToTarget example_api example_page []
       [(''helpers'', LNamespace [(''foo'', JSFunction 1 False)])])) ''helpers'' = None"
  by (simp add: applyCommandsToTarget_def isAllowedNamespace_def ALLOWED_NAMESPACES_def)

section \<open>Evaluation rules\<close>

lemmas resolve_defs =
  parseElementSelector_def getSelectorFromArgs_def isPossibleElementSelector_def
  has_string_selector_def arg_def createFromSelector_def hasElementSelector_def
  startsWith_at_def strategy_filter_def pseudo_of_def getElement_def getSection_def
  read_entry_def entry_of_def in_target_def Object_prototype_def
  validate_def lookup_message_def target_of_def strategy_of_def given_def show_strategy_def
  set_selector_def set_locateStrategy_def set_pseudoSelector_def set_parent_def
  set_container_def store_entry_def copyDefaults_def getRecursiveLookupElement_def
  recursive_element_def new_Command_def isUserDefinedElementCommand_def props_of_def
  with_props_def Let_def

lemmas example_defs = example_api_def example_page_def example_section_def footer_element_def

section \<open>Dispatch through executeCommand\<close>

lemma tl_update0: "tl (xs[0 := v]) = tl xs"
  by (cases xs) simp_all

lemma parseElementSelector_shape:
  assumes "parseElementSelector env cmd args = Inr (cmd1, args1)"
  shows "length args1 = length args \<and> tl args1 = tl args"
  using assms unfolding parseElementSelector_def Let_def
  by (auto simp: tl_update0 split: option.splits sum.splits if_splits)

lemma store_entry_frame:
  "constructor_name (owner (store_entry cmd b nm e)) = constructor_name (owner cmd)
   \<and> proto_props (owner (store_entry cmd b nm e)) = proto_props (owner cmd)
   \<and> own_props (owner (store_entry cmd b nm e)) = own_props (owner cmd)
   \<and> commandName (store_entry cmd b nm e) = commandName cmd
   \<and> isChaiAssertion (store_entry cmd b nm e) = isChaiAssertion cmd"
  by (simp add: store_entry_def)

lemma parseElementSelector_frame:
  assumes "parseElementSelector env cmd args = Inr (cmd1, args1)"
  shows "constructor_name (owner cmd1) = constructor_name (owner cmd)
   \<and> proto_props (owner cmd1) = proto_props (owner cmd)
   \<and> own_props (owner cmd1) = own_props (owner cmd)"
  using assms unfolding parseElementSelector_def Let_def
  by (auto simp: store_entry_frame split: option.splits sum.splits if_splits looked_up.splits)

lemma structured_nonempty:
  "structured args = Some (fs, inner) \<Longrightarrow> \<exists>a rest. args = a # rest \<and> props_of a = Some fs"
  by (cases args) (auto simp: structured_def arg_def props_of_def split: jsval.splits option.splits)

text \<open>
  Claim C8. \<open>executeCommand\<close> resolves the selector on \<open>parseArgs\<close>, which is the array
  \<open>args[0].args\<close> when \<open>args[0]\<close> is an object with an array-valued \<open>args\<close> and \<open>args\<close> itself
  otherwise. When resolution throws, \<open>executeCommand\<close> throws that error, has made no call to
  the command function and has changed nothing. When resolution succeeds, the command
  function is called exactly once, with the given context and with the outer list \<open>args\<close>:
  the list resolution wrote to in the plain case; in the structured case the list of the
  same length and the same further arguments whose first argument is still the object, with
  every property but \<open>args\<close> as before and \<open>args\<close> holding the resolved inner array.
\<close>

theorem executeCommand_dispatch:
  "(\<forall>err. parseElementSelector env cmd (parseArgs_of args) = Inl err \<longrightarrow>
       executeCommand env cmd f args ctx = (cmd, [], Inl err))
   \<and> (\<forall>cmd1 resolved. parseElementSelector env cmd (parseArgs_of args) = Inr (cmd1, resolved) \<longrightarrow>
       executeCommand env cmd f args ctx
         = (cmd1, [(ctx, args_after args resolved)], f ctx (args_after args resolved))
       \<and> length (args_after args resolved) = length args
       \<and> tl (args_after args resolved) = tl args)
   \<and> (structured args = None \<longrightarrow>
         parseArgs_of args = args \<and> (\<forall>resolved. args_after args resolved = resolved))
   \<and> (\<forall>fs inner. structured args = Some (fs, inner) \<longrightarrow>
         parseArgs_of args = inner
         \<and> props_of (arg args 0) = Some fs
         \<and> (\<forall>resolved. \<exists>fs'. args_after args resolved = with_props (arg args 0) fs' # tl args
               \<and> map_of fs' ''args'' = Some (JArr resolved)
               \<and> (\<forall>k. k \<noteq> ''args'' \<longrightarrow> map_of fs' k = map_of fs k)))"
proof -
  have a: "\<forall>err. parseElementSelector env cmd (parseArgs_of args) = Inl err \<longrightarrow>
       executeCommand env cmd f args ctx = (cmd, [], Inl err)"
    by (simp add: executeCommand_def)
  have b: "\<forall>cmd1 resolved. parseElementSelector env cmd (parseArgs_of args) = Inr (cmd1, resolved) \<longrightarrow>
       executeCommand env cmd f args ctx
         = (cmd1, [(ctx, args_after args resolved)], f ctx (args_after args resolved))
       \<and> length (args_after args resolved) = length args
       \<and> tl (args_after args resolved) = tl args"
  proof (intro allI impI)
    fix cmd1 resolved
    assume p: "parseElementSelector env cmd (parseArgs_of args) = Inr (cmd1, resolved)"
    show "executeCommand env cmd f args ctx
         = (cmd1, [(ctx, args_after args resolved)], f ctx (args_after args resolved))
       \<and> length (args_after args resolved) = length args
       \<and> tl (args_after args resolved) = tl args"
    proof (cases "structured args")
      case None
      with p parseElementSelector_shape [OF p] show ?thesis
        by (simp add: executeCommand_def args_after_def parseArgs_of_def)
    next
      case (Some q)
      with p show ?thesis
        by (cases q) (simp add: executeCommand_def args_after_def tl_update0)
    qed
  qed
  have c: "structured args = None \<longrightarrow>
         parseArgs_of args = args \<and> (\<forall>resolved. args_after args resolved = resolved)"
    by (simp add: parseArgs_of_def args_after_def)
  have d: "\<forall>fs inner. structured args = Some (fs, inner) \<longrightarrow>
         parseArgs_of args = inner
         \<and> props_of (arg args 0) = Some fs
         \<and> (\<forall>resolved. \<exists>fs'. args_after args resolved = with_props (arg args 0) fs' # tl args
               \<and> map_of fs' ''args'' = Some (JArr resolved)
               \<and> (\<forall>k. k \<noteq> ''args'' \<longrightarrow> map_of fs' k = map_of fs k))"
  proof (intro allI impI)
    fix fs inner
    assume s: "structured args = Some (fs, inner)"
    then obtain a rest where r: "args = a # rest" "props_of a = Some fs"
      using structured_nonempty by blast
    show "parseArgs_of args = inner
         \<and> props_of (arg args 0) = Some fs
         \<and> (\<forall>resolved. \<exists>fs'. args_after args resolved = with_props (arg args 0) fs' # tl args
               \<and> map_of fs' ''args'' = Some (JArr resolved)
               \<and> (\<forall>k. k \<noteq> ''args'' \<longrightarrow> map_of fs' k = map_of fs k))"
      using s r by (auto simp: parseArgs_of_def args_after_def update_conv' arg_def)
  qed
  show ?thesis using a b c d by blast
qed


theorem executeCommand_dispatch_witness:
  "executeCommand example_api (new_Command example_api example_page ''click'' False False)
     (\<lambda>ctx args. Inr (JNum (int (length args))))
     [JObj [(''args'', JArr [JStr ''@submit'', JNum 5]), (''x'', JNull)], JNum 3]
     \<lparr>isES6AsyncTestcase = False\<rparr>
   = (new_Command example_api example_page ''click'' False False,
      [(\<lparr>isES6AsyncTestcase = False\<rparr>,
        [JObj [(''args'', JArr [JElement (Element (SelString ''#go'') None None None None), JNum 5]),
               (''x'', JNull)], JNum 3])],
      Inr (JNum 2))
   \<and> (\<exists>msg. executeCommand example_api (new_Command example_api example_page ''click'' False False)
     (\<lambda>ctx args. Inr (JNum (int (length args))))
     [JObj [(''args'', JArr [JStr ''@nope'', JNum 5]), (''x'', JNull)], JNum 3]
     \<lparr>isES6AsyncTestcase = False\<rparr>
   = (new_Command example_api example_page ''click'' False False, [], Inl (Error msg)))"
proof -
  let ?c = "new_Command example_api example_page ''click'' False False"
  let ?f = "\<lambda>(ctx::client) (args::jsval list). (Inr (JNum (int (length args))) :: error + jsval)"
  let ?ctx = "\<lparr>isES6AsyncTestcase = False\<rparr>"
  let ?a = "[JObj [(''args'', JArr [JStr ''@submit'', JNum 5]), (''x'', JNull)], JNum 3]"
  let ?b = "[JObj [(''args'', JArr [JStr ''@nope'', JNum 5]), (''x'', JNull)], JNum 3]"
  have sa: "structured ?a = Some ([(''args'', JArr [JStr ''@submit'', JNum 5]), (''x'', JNull)],
                                   [JStr ''@submit'', JNum 5])"
    by (simp add: structured_def arg_def props_of_def)
  have sb: "structured ?b = Some ([(''args'', JArr [JStr ''@nope'', JNum 5]), (''x'', JNull)],
                                   [JStr ''@nope'', JNum 5])"
    by (simp add: structured_def arg_def props_of_def)
  have pa: "parseElementSelector example_api ?c (parseArgs_of ?a)
            = Inr (?c, [JElement (Element (SelString ''#go'') None None None None), JNum 5])"
    unfolding parseArgs_of_def sa by (simp add: resolve_defs example_defs)
  have pb: "\<exists>msg. parseElementSelector example_api ?c (parseArgs_of ?b) = Inl (Error msg)"
    unfolding parseArgs_of_def sb by (simp add: resolve_defs example_defs)
  have aa: "args_after ?a [JElement (Element (SelString ''#go'') None None None None), JNum 5]
            = [JObj [(''args'', JArr [JElement (Element (SelString ''#go'') None None None None), JNum 5]),
               (''x'', JNull)], JNum 3]"
    unfolding args_after_def sa by (simp add: with_props_def arg_def)
  from pb obtain msg where pb': "parseElementSelector example_api ?c (parseArgs_of ?b) = Inl (Error msg)"
    by blast
  show ?thesis
    using executeCommand_dispatch [of example_api ?c ?a ?f ?ctx] pa aa
      executeCommand_dispatch [of example_api ?c ?b ?f ?ctx] pb'
    by simp
qed

section \<open>What the wrapper returns\<close>

lemma define_from_keeps:
  "map_of proto k = Some d \<Longrightarrow> k \<noteq> ''constructor'' \<Longrightarrow> map_of ps k = Some d \<Longrightarrow>
   map_of (define_from proto k' ps) k = Some d"
  by (auto simp: define_from_def update_conv' split: option.splits)

lemma fold_define_from_keeps:
  "map_of proto k = Some d \<Longrightarrow> k \<noteq> ''constructor'' \<Longrightarrow> map_of ps k = Some d \<Longrightarrow>
   map_of (fold (define_from proto) ks ps) k = Some d"
  by (induction ks arbitrary: ps) (simp_all add: define_from_keeps)

lemma fold_define_from_sets:
  "map_of proto k = Some d \<Longrightarrow> k \<noteq> ''constructor'' \<Longrightarrow> k \<in> set ks \<Longrightarrow>
   map_of (fold (define_from proto) ks ps) k = Some d"
proof (induction ks arbitrary: ps)
  case Nil
  then show ?case by simp
next
  case (Cons k' ks)
  show ?case
  proof (cases "k' = k")
    case True
    have "map_of (define_from proto k ps) k = Some d"
      using Cons.prems(1,2) by (simp add: define_from_def update_conv')
    then show ?thesis
      using True Cons.prems(1,2) by (simp add: fold_define_from_keeps)
  next
    case False
    then show ?thesis using Cons by simp
  qed
qed

lemma augment_exposes:
  assumes "k \<in> fst ` set (proto_props p)" and "k \<noteq> ''constructor''"
  shows "map_of (augment p props) k = map_of (proto_props p) k"
proof -
  from assms(1) obtain d where d: "map_of (proto_props p) k = Some d"
    by (metis map_of_eq_None_iff not_Some_eq)
  have "k \<in> set (map fst (proto_props p))" using assms(1) by simp
  then show ?thesis
    unfolding augment_def using fold_define_from_sets [OF d assms(2)] d by simp
qed

lemma executeCommand_frame:
  assumes "executeCommand env cmd f args ctx = (cmd1, cs, r)"
  shows "constructor_name (owner cmd1) = constructor_name (owner cmd)
   \<and> proto_props (owner cmd1) = proto_props (owner cmd)
   \<and> own_props (owner cmd1) = own_props (owner cmd)"
proof (cases "parseElementSelector env cmd (parseArgs_of args)")
  case (Inl e)
  with assms show ?thesis by (simp add: executeCommand_def)
next
  case (Inr q)
  obtain c2 a2 where q: "q = (c2, a2)" by (cases q)
  with Inr assms have "c2 = cmd1" by (simp add: executeCommand_def)
  with Inr q parseElementSelector_frame show ?thesis by blast
qed

text \<open>
  Claim C1. Whenever a wrapper call returns, the wrapped function was called and returned
  some \<open>result\<close>, and: for a chai assertion the wrapper returns \<open>result\<close> itself; otherwise,
  when \<open>result\<close> is a promise and the parent's constructor is named \<open>Page\<close> or the client has
  \<open>isES6AsyncTestcase\<close> set, it returns that same promise (same identity) on which every own
  property of the parent's prototype except \<open>constructor\<close> is defined with the prototype's
  descriptor; in every other case it returns the parent. (How a promise resolves is not part
  of the model.)
\<close>

theorem createWrapper_returns:
  assumes "createWrapper env self f this args = (self1, cs, Inr ret)"
  shows "\<exists>args1 result.
           within_command self this args = Inr args1
         \<and> executeCommand env self f args1 (client_of self this) = (self1, cs, Inr result)
         \<and> (isChaiAssertion self \<longrightarrow> ret = Returned result)
         \<and> (\<not> isChaiAssertion self
              \<and> (\<exists>n props. result = JPromise n props)
              \<and> (constructor_name (owner self) = ''Page''
                  \<or> isES6AsyncTestcase (client_of self this))
            \<longrightarrow> (\<exists>n props props'. result = JPromise n props \<and> ret = Returned (JPromise n props')
                   \<and> (\<forall>k \<in> fst ` set (proto_props (owner self)).
                         k \<noteq> ''constructor'' \<longrightarrow>
                         map_of props' k = map_of (proto_props (owner self)) k)))
         \<and> (\<not> isChaiAssertion self
              \<and> \<not> ((\<exists>n props. result = JPromise n props)
                     \<and> (constructor_name (owner self) = ''Page''
                         \<or> isES6AsyncTestcase (client_of self this)))
            \<longrightarrow> ret = ReturnedParent (owner self1))"
proof -
  from assms obtain args1 where w: "within_command self this args = Inr args1"
    by (cases "within_command self this args") (auto simp: createWrapper_def)
  obtain s2 cs2 r2 where e: "executeCommand env self f args1 (client_of self this) = (s2, cs2, r2)"
    by (cases "executeCommand env self f args1 (client_of self this)") auto
  from assms w e obtain result where r: "r2 = Inr result"
    by (cases r2) (auto simp: createWrapper_def)
  from assms w e r have s: "s2 = self1" "cs2 = cs"
    by (auto simp: createWrapper_def split: if_splits jsval.splits)
  have fr: "proto_props (owner self1) = proto_props (owner self)"
    using executeCommand_frame e s by blast
  have chai: "isChaiAssertion self \<longrightarrow> ret = Returned result"
    using assms w e r by (auto simp: createWrapper_def)
  have prom: "\<not> isChaiAssertion self
              \<and> (\<exists>n props. result = JPromise n props)
              \<and> (constructor_name (owner self) = ''Page''
                  \<or> isES6AsyncTestcase (client_of self this))
            \<longrightarrow> (\<exists>n props props'. result = JPromise n props \<and> ret = Returned (JPromise n props')
                   \<and> (\<forall>k \<in> fst ` set (proto_props (owner self)).
                         k \<noteq> ''constructor'' \<longrightarrow>
                         map_of props' k = map_of (proto_props (owner self)) k))"
  proof (intro impI)
    assume h: "\<not> isChaiAssertion self
              \<and> (\<exists>n props. result = JPromise n props)
              \<and> (constructor_name (owner self) = ''Page''
                  \<or> isES6AsyncTestcase (client_of self this))"
    then obtain n props where p: "result = JPromise n props" by blast
    from assms w e r s p h have "ret = Returned (JPromise n (augment (owner self1) props))"
      by (auto simp: createWrapper_def)
    moreover have "\<forall>k \<in> fst ` set (proto_props (owner self)).
                         k \<noteq> ''constructor'' \<longrightarrow>
                         map_of (augment (owner self1) props) k = map_of (proto_props (owner self)) k"
      using augment_exposes [of _ "owner self1" props] fr by auto
    ultimately show "\<exists>n props props'. result = JPromise n props \<and> ret = Returned (JPromise n props')
                   \<and> (\<forall>k \<in> fst ` set (proto_props (owner self)).
                         k \<noteq> ''constructor'' \<longrightarrow>
                         map_of props' k = map_of (proto_props (owner self)) k)"
      using p by blast
  qed
  have other: "\<not> isChaiAssertion self
              \<and> \<not> ((\<exists>n props. result = JPromise n props)
                     \<and> (constructor_name (owner self) = ''Page''
                         \<or> isES6AsyncTestcase (client_of self this)))
            \<longrightarrow> ret = ReturnedParent (owner self1)"
    using assms w e r s by (auto simp: createWrapper_def split: if_splits jsval.splits)
  show ?thesis using w e r s chai prom other by blast
qed

theorem createWrapper_returns_witness:
  "createWrapper example_api (new_Command example_api example_page ''getTitle'' False True)
     (\<lambda>ctx args. Inr (JPromise 7 [(''api'', JNull)]))
     \<lparr>needsRecursion = False, this_element = footer_element, this_client = None\<rparr> [JStr ''x'']
   = (new_Command example_api example_page ''getTitle'' False True,
      [(\<lparr>isES6AsyncTestcase = False\<rparr>, [JStr ''x''])],
      Inr (Returned (JPromise 7 [(''api'', JFun 1), (''name'', JStr ''home'')])))
   \<and> map_of [(''api'', JFun 1), (''name'', JStr ''home'')] ''api''
     = map_of (proto_props example_page) ''api''
   \<and> createWrapper example_api (new_Command example_api example_section ''getTitle'' False True)
     (\<lambda>ctx args. Inr (JPromise 7 [(''api'', JNull)]))
     \<lparr>needsRecursion = False, this_element = footer_element, this_client = None\<rparr> [JStr ''x'']
   = (new_Command example_api example_section ''getTitle'' False True,
      [(\<lparr>isES6AsyncTestcase = False\<rparr>, [JStr ''x''])],
      Inr (ReturnedParent example_section))
   \<and> createWrapper example_api (new_Command example_api example_page ''title'' True False)
     (\<lambda>ctx args. Inr (JPromise 7 [(''api'', JNull)]))
     \<lparr>needsRecursion = False, this_element = footer_element, this_client = None\<rparr> [JStr ''x'']
   = (new_Command example_api example_page ''title'' True False,
      [(\<lparr>isES6AsyncTestcase = False\<rparr>, [JStr ''x''])],
      Inr (Returned (JPromise 7 [(''api'', JNull)])))"
proof -
  let ?f = "\<lambda>(ctx::client) (args::jsval list). (Inr (JPromise 7 [(''api'', JNull)]) :: error + jsval)"
  let ?recv = "\<lparr>needsRecursion = False, this_element = footer_element, this_client = None\<rparr>"
  let ?ctx = "\<lparr>isES6AsyncTestcase = False\<rparr>"
  have a: "createWrapper example_api (new_Command example_api example_page ''getTitle'' False True)
     ?f ?recv [JStr ''x'']
   = (new_Command example_api example_page ''getTitle'' False True, [(?ctx, [JStr ''x''])],
      Inr (Returned (JPromise 7 [(''api'', JFun 1), (''name'', JStr ''home'')])))"
    by (simp add: createWrapper_def within_command_def executeCommand_def parseArgs_of_def
        args_after_def structured_def client_of_def augment_def object_assign_def define_from_def
        resolve_defs example_defs)
  have b: "createWrapper example_api (new_Command example_api example_section ''getTitle'' False True)
     ?f ?recv [JStr ''x'']
   = (new_Command example_api example_section ''getTitle'' False True, [(?ctx, [JStr ''x''])],
      Inr (ReturnedParent example_section))"
    by (simp add: createWrapper_def within_command_def executeCommand_def parseArgs_of_def
        args_after_def structured_def client_of_def augment_def object_assign_def define_from_def
        resolve_defs example_defs)
  have c: "createWrapper example_api (new_Command example_api example_page ''title'' True False)
     ?f ?recv [JStr ''x'']
   = (new_Command example_api example_page ''title'' True False, [(?ctx, [JStr ''x''])],
      Inr (Returned (JPromise 7 [(''api'', JNull)])))"
    by (simp add: createWrapper_def within_command_def executeCommand_def parseArgs_of_def
        args_after_def structured_def client_of_def augment_def object_assign_def define_from_def
        resolve_defs example_defs)
  have d: "map_of [(''api'', JFun 1), (''name'', JStr ''home'')] ''api''
     = map_of (proto_props example_page) ''api''"
    using createWrapper_returns [OF a]
    by (simp add: new_Command_def example_page_def)
  show ?thesis
    using a b c d createWrapper_returns [OF b] createWrapper_returns [OF c] by simp
qed

section \<open>Resolution of element references\<close>












section \<open>Writes to the declaration maps\<close>













section \<open>Literal selectors on a section\<close>

lemma ancestors_set_parent: "ancestors (set_parent (Some s) e) = ancestors s @ [s]"
  by (simp add: set_parent_def)

lemma section_chain:
  assumes "createFromSelector sel = Inr (Element (SelString u) l None None None)"
    and "getSelectorFromArgs env cmd (a # rest) = Some sel"
    and "\<not> startsWith_at u"
    and "instanceof_Section (owner cmd)"
  shows "\<exists>cmd'. parseElementSelector env cmd (a # rest)
     = Inr (cmd', JElement (recursive_element
              (ancestors (as_element (owner cmd))
               @ [as_element (owner cmd),
                  Element (SelString u) l None (Some (as_element (owner cmd))) None])) # rest)"
proof -
  have he: "\<not> hasElementSelector (Element (SelString u) l None None None)"
    using assms(3) by (simp add: hasElementSelector_def)
  have sp: "set_parent (Some (as_element (owner cmd))) (Element (SelString u) l None None None)
            = Element (SelString u) l None (Some (as_element (owner cmd))) None"
    by (simp add: set_parent_def)
  have rec: "getRecursiveLookupElement (Element (SelString u) l None (Some (as_element (owner cmd))) None)
             = Some (recursive_element (ancestors (as_element (owner cmd))
               @ [as_element (owner cmd),
                  Element (SelString u) l None (Some (as_element (owner cmd))) None]))"
    by (simp add: getRecursiveLookupElement_def)
  show ?thesis
    by (simp add: parseElementSelector_def assms(1,2,4) he sp rec Let_def)
qed

text \<open>
  Claim C5, amended. For every element command (one that \<open>Api.isElementCommand\<close> or
  \<open>ScopedElementApi.isScopedElementCommand\<close> accepts) owned by a Section and invoked with a
  non-empty literal string selector that does not start with \<open>@\<close>, resolution replaces
  \<open>args[0]\<close> by a recursive Element: its strategy is \<open>recursion\<close> and its selector is the chain
  of the sections enclosing the owner, the owner, and the element of the given selector.
  (When the string is a strategy name followed by a string, that second string is the
  selector and the first the element's strategy.)
\<close>

theorem parseElementSelector_section_literal:
  assumes "instanceof_Section (owner cmd)"
    and "isElementCommand env (commandName cmd) \<or> isScopedElementCommand env (commandName cmd)"
    and "s \<noteq> []" and "\<not> startsWith_at s"
    and "(\<not> (isValid env (JStr s) \<and> isString (arg (JStr s # rest) 1)) \<and> u = s \<and> l = None)
       \<or> (isValid env (JStr s) \<and> arg (JStr s # rest) 1 = JStr u \<and> \<not> startsWith_at u \<and> l = Some s)"
  shows "\<exists>cmd' r t. parseElementSelector env cmd (JStr s # rest) = Inr (cmd', JElement r # rest)
     \<and> locateStrategy r = Some ''recursion''
     \<and> selector r = SelChain (ancestors (as_element (owner cmd)) @ [as_element (owner cmd), t])
     \<and> selector t = SelString u \<and> locateStrategy t = l"
proof -
  have poss: "isPossibleElementSelector env (JStr s) (commandName cmd)"
    using assms(2,3) by (auto simp: isPossibleElementSelector_def)
  from assms(5) have "\<exists>sel. getSelectorFromArgs env cmd (JStr s # rest) = Some sel
      \<and> createFromSelector sel = Inr (Element (SelString u) l None None None) \<and> \<not> startsWith_at u"
  proof
    assume h: "\<not> (isValid env (JStr s) \<and> isString (arg (JStr s # rest) 1)) \<and> u = s \<and> l = None"
    then have "getSelectorFromArgs env cmd (JStr s # rest) = Some (JStr s)"
      using poss by (auto simp: getSelectorFromArgs_def Let_def arg_def)
    moreover have "createFromSelector (JStr s) = Inr (Element (SelString u) l None None None)"
      using h assms(3) by (simp add: createFromSelector_def)
    ultimately show ?thesis using h assms(4) by blast
  next
    assume h: "isValid env (JStr s) \<and> arg (JStr s # rest) 1 = JStr u \<and> \<not> startsWith_at u \<and> l = Some s"
    then have "getSelectorFromArgs env cmd (JStr s # rest)
               = Some (JObj [(''selector'', JStr u), (''locateStrategy'', JStr s)])"
      using poss by (simp add: getSelectorFromArgs_def Let_def) (simp add: arg_def)
    moreover have "createFromSelector (JObj [(''selector'', JStr u), (''locateStrategy'', JStr s)])
                   = Inr (Element (SelString u) l None None None)"
      using h by (simp add: createFromSelector_def props_of_def)
    ultimately show ?thesis using h by blast
  qed
  then obtain sel where sel: "getSelectorFromArgs env cmd (JStr s # rest) = Some sel"
    "createFromSelector sel = Inr (Element (SelString u) l None None None)" "\<not> startsWith_at u"
    by blast
  from section_chain [OF sel(2) sel(1) sel(3) assms(1)] obtain cmd' where
    "parseElementSelector env cmd (JStr s # rest)
     = Inr (cmd', JElement (recursive_element
              (ancestors (as_element (owner cmd))
               @ [as_element (owner cmd),
                  Element (SelString u) l None (Some (as_element (owner cmd))) None])) # rest)"
    by blast
  then show ?thesis by (auto simp: recursive_element_def)
qed

theorem parseElementSelector_section_literal_witness:
  "instanceof_Section (owner (new_Command example_api example_section ''click'' False False))
   \<and> isElementCommand example_api
        (commandName (new_Command example_api example_section ''click'' False False))
   \<and> parseElementSelector example_api
        (new_Command example_api example_section ''click'' False False) [JStr ''div.x'']
     = Inr (new_Command example_api example_section ''click'' False False,
            [JElement (Element (SelChain [footer_element,
                Element (SelString ''div.x'') None None (Some footer_element) None])
              (Some ''recursion'') None None None)])"
proof -
  let ?c = "new_Command example_api example_section ''click'' False False"
  have a: "instanceof_Section (owner ?c)" by (simp add: new_Command_def example_section_def)
  have b: "isElementCommand example_api (commandName ?c)
           \<or> isScopedElementCommand example_api (commandName ?c)"
    by (simp add: new_Command_def example_api_def)
  have c: "''div.x'' \<noteq> []" by simp
  have d: "\<not> startsWith_at ''div.x''" by (simp add: startsWith_at_def)
  have e: "(\<not> (isValid example_api (JStr ''div.x'') \<and> isString (arg (JStr ''div.x'' # []) 1))
             \<and> ''div.x'' = ''div.x'' \<and> (None :: string option) = None)
       \<or> (isValid example_api (JStr ''div.x'') \<and> arg (JStr ''div.x'' # []) 1 = JStr ''div.x''
           \<and> \<not> startsWith_at ''div.x'' \<and> None = Some ''div.x'')"
    by (simp add: example_api_def)
  have f: "parseElementSelector example_api ?c [JStr ''div.x'']
     = Inr (?c, [JElement (Element (SelChain [footer_element,
                Element (SelString ''div.x'') None None (Some footer_element) None])
              (Some ''recursion'') None None None)])"
    by (simp add: resolve_defs example_defs)
  have g: "isElementCommand example_api (commandName ?c)"
    by (simp add: new_Command_def example_api_def)
  show ?thesis
    using a g f parseElementSelector_section_literal [OF a b c d e] by blast
qed

text \<open>
  Claim C5 as stated fails for a command that is no element command: on the section, \<open>pause\<close>
  called with the literal \<open>div.x\<close> keeps its argument as the string.
\<close>

theorem parseElementSelector_non_element_command_counterexample:
  "instanceof_Section (owner (new_Command example_api example_section ''pause'' False False))
   \<and> \<not> startsWith_at ''div.x''
   \<and> parseElementSelector example_api
        (new_Command example_api example_section ''pause'' False False) [JStr ''div.x'']
     = Inr (new_Command example_api example_section ''pause'' False False, [JStr ''div.x''])"
  by (simp add: resolve_defs example_defs)

section \<open>The flag of the scoped element binder\<close>

text \<open>
  Claim C4 does not hold of the code. On a fresh wrapper of the scoped command \<open>find\<close> of the
  section, \<open>@link\<close> is dispatched to the original function with the resolved chain. A call
  with the literal \<open>div.x\<close> sets \<open>onlyLocateSectionsRecursively\<close> on the Command the wrapper
  shares between its calls, and nothing resets it: the next call with \<open>@link\<close> pops the chain
  and hands the unresolved string \<open>@link\<close> to the parent section element, and a call with no
  argument ends in a TypeError of the engine.
\<close>

theorem onlyLocateSectionsRecursively_leaks:
  "wrapElementCommand example_api
     (new_Command example_api example_section ''find'' False False) [JStr ''@link'']
   = (new_Command example_api example_section ''find'' False False,
      Inr (OriginalFn [JElement (Element (SelChain [footer_element,
              Element (SelString ''a.link'') None None (Some footer_element) None])
            (Some ''recursion'') None None None)]))
   \<and> wrapElementCommand example_api
       (new_Command example_api example_section ''find'' False False) [JStr ''div.x'']
     = ((new_Command example_api example_section ''find'' False False)
          \<lparr>onlyLocateSectionsRecursively := True\<rparr>,
        Inr (ParentSectionElement
               (JElement (Element (SelChain [footer_element]) (Some ''recursion'') None None None))
               [JStr ''div.x'']))
   \<and> wrapElementCommand example_api
       ((new_Command example_api example_section ''find'' False False)
          \<lparr>onlyLocateSectionsRecursively := True\<rparr>) [JStr ''@link'']
     = ((new_Command example_api example_section ''find'' False False)
          \<lparr>onlyLocateSectionsRecursively := True\<rparr>,
        Inr (ParentSectionElement
               (JElement (Element (SelChain [footer_element]) (Some ''recursion'') None None None))
               [JStr ''@link'']))
   \<and> wrapElementCommand example_api
       ((new_Command example_api example_section ''find'' False False)
          \<lparr>onlyLocateSectionsRecursively := True\<rparr>) []
     = ((new_Command example_api example_section ''find'' False False)
          \<lparr>onlyLocateSectionsRecursively := True\<rparr>,
        Inl RuntimeTypeError)"
  by (simp add: wrapElementCommand_def pop_selector_def resolve_defs example_defs)

end
